theory Spec2Isabelle
  imports Complex_Main
begin

section \<open>The av_log to mp_msg converter (common/av_log.c)\<close>

subsection \<open>Severity levels\<close>

text \<open>
  The native scale of the callback's \<open>level\<close> argument: the macros of
  libavutil/log.h, the public header of the library the bridge listens to, with the
  values they have there. A smaller number is a more severe message. The C type is
  \<open>int\<close>; the code only compares levels, so no arithmetic can overflow.
\<close>

definition AV_LOG_FATAL :: int where "AV_LOG_FATAL = 8"
definition AV_LOG_ERROR :: int where "AV_LOG_ERROR = 16"
definition AV_LOG_WARNING :: int where "AV_LOG_WARNING = 24"
definition AV_LOG_INFO :: int where "AV_LOG_INFO = 32"
definition AV_LOG_VERBOSE :: int where "AV_LOG_VERBOSE = 40"
definition AV_LOG_DEBUG :: int where "AV_LOG_DEBUG = 48"

text \<open>
  The application levels \<open>MSGL_*\<close> are macros of common/msg.h, which is not among the
  sources; the five that av_log.c uses are taken as parameters. As on the native
  scale, a smaller number is a more severe level: \<open>msgl_ordered\<close> says that the
  five are in the order of their severity.
\<close>

record msg_levels =
  MSGL_FATAL :: int
  MSGL_ERR :: int
  MSGL_WARN :: int
  MSGL_V :: int
  MSGL_DBG2 :: int

definition msgl_ordered :: "msg_levels \<Rightarrow> bool" where
  "msgl_ordered L =
     (MSGL_FATAL L \<le> MSGL_ERR L \<and> MSGL_ERR L \<le> MSGL_WARN L \<and>
      MSGL_WARN L \<le> MSGL_V L \<and> MSGL_V L \<le> MSGL_DBG2 L)"

definition av_log_level_to_mp_level :: "msg_levels \<Rightarrow> int \<Rightarrow> int" where
  "av_log_level_to_mp_level L av_level =
     (if av_level > AV_LOG_VERBOSE then MSGL_DBG2 L
      else if av_level > AV_LOG_INFO then MSGL_V L
      else if av_level > AV_LOG_WARNING then MSGL_V L
      else if av_level > AV_LOG_ERROR then MSGL_WARN L
      else if av_level > AV_LOG_FATAL then MSGL_ERR L
      else MSGL_FATAL L)"

subsection \<open>The objects a message comes from\<close>

text \<open>
  The callback's \<open>ptr\<close> is a \<open>void *\<close>: NULL, or the address of a struct whose
  first member is an \<open>AVClass *\<close>. \<open>get_av_log\<close> reads that member, and, after a
  cast chosen by the class name, the members \<open>codec\<close> (of an AVCodecContext) or
  \<open>iformat\<close> (of an AVFormatContext). An object is modelled by the values of
  these three reads; a pointer is an \<open>option\<close>, with \<open>None\<close> for NULL.
\<close>

datatype AVMediaType =
  AVMEDIA_TYPE_UNKNOWN | AVMEDIA_TYPE_VIDEO | AVMEDIA_TYPE_AUDIO | AVMEDIA_TYPE_DATA
| AVMEDIA_TYPE_SUBTITLE | AVMEDIA_TYPE_ATTACHMENT | AVMEDIA_TYPE_NB

record AVClass =
  class_name :: string
  item_name :: string \<comment> \<open>what \<open>avc->item_name(ptr)\<close> returns for the object\<close>

record AVCodec =
  codec_type :: AVMediaType \<comment> \<open>the member \<open>type\<close>\<close>
  decode :: "nat option" \<comment> \<open>a function pointer\<close>

record av_object =
  av_class :: "AVClass option"
  codec :: "AVCodec option"
  iformat :: "nat option"

subsection \<open>Log sinks\<close>

text \<open>
  Modelled from the spec: \<open>struct mp_log\<close> and \<open>mp_log_new\<close> of common/msg.c,
  which is not among the sources. The spec calls a sink "addressable by a hierarchical
  name" (\<open>root\<close>, \<open>root.audio\<close>, ...): a sink is its path of names, and a new
  sink extends the path of its parent by its own name. The first argument of
  \<open>mp_log_new\<close>, the talloc parent, decides only who frees the sink.
\<close>

type_synonym mp_log = "string list"

definition mp_log_new :: "mp_log \<Rightarrow> string \<Rightarrow> mp_log" where
  "mp_log_new parent name = parent @ [name]"

text \<open>
  \<open>LIB_PREFIX\<close> is chosen by the preprocessor from \<open>LIBAVCODEC_VERSION_MICRO\<close>.
\<close>

definition LIB_PREFIX :: "nat \<Rightarrow> string" where
  "LIB_PREFIX micro = (if micro \<ge> 100 then ''ffmpeg'' else ''libav'')"

subsection \<open>The bridge state and what the bridge does to the outside\<close>

text \<open>
  \<open>struct mpv_global\<close> is declared in common/global.h. A pointer to an instance
  that is not NULL is modelled by the address it holds and by the member \<open>log\<close> read
  through it; NULL is \<open>None\<close>. Two pointers are equal if their addresses are, whatever
  the members hold when they are compared.
\<close>

record mpv_global =
  global_addr :: nat
  global_log :: mp_log

text \<open>
  The file's static variables with their initial values. \<open>log_lock\<close> is held around
  every access to them, so the entry points run one after the other.
\<close>

record bridge =
  log_mpv_instance :: "mpv_global option"
  log_root :: "mp_log option"
  log_decaudio :: "mp_log option"
  log_decvideo :: "mp_log option"
  log_demuxer :: "mp_log option"
  log_print_prefix :: bool

definition bridge_init :: bridge where
  "bridge_init =
     \<lparr>log_mpv_instance = None, log_root = None, log_decaudio = None,
      log_decvideo = None, log_demuxer = None, log_print_prefix = True\<rparr>"

text \<open>
  A \<open>va_list\<close> is the sequence of the variadic arguments; the bridge passes it on
  unread.
\<close>

datatype va_arg = Va_int int | Va_str string | Va_ptr nat

type_synonym va_list = "va_arg list"

text \<open>Calls that leave the file, in the order they are made.\<close>

datatype event =
  Vfprintf_stderr string va_list
| Mp_msg_log "mp_log option" int string "string list"
| Mp_msg_log_va "mp_log option" int string va_list
| Av_log_set_callback
| Avcodec_register_all
| Av_register_all
| Avformat_network_init
| Avfilter_register_all
| Avdevice_register_all
| Talloc_free "mp_log option"

datatype error = Null_dereference | Out_of_bounds_read

text \<open>
  What the build and the rest of the program fix for the bridge: the \<open>MSGL_*\<close>
  levels, the preprocessor symbols, and \<open>mp_msg_test_log\<close> of common/msg.c (whether a
  sink takes messages of a level).
\<close>

record env =
  msgl :: msg_levels
  LIBAVCODEC_VERSION_MICRO :: nat
  HAVE_LIBAVFILTER :: bool
  HAVE_LIBAVDEVICE :: bool
  mp_msg_test_log :: "mp_log option \<Rightarrow> int \<Rightarrow> bool"

subsection \<open>Choosing the sink\<close>

text \<open>
  The block under \<open>strcmp(avc->class_name, "AVCodecContext")\<close>: \<open>Some\<close> sink where
  it returns, \<open>None\<close> where control falls out of it.
\<close>

definition codec_context_log :: "bridge \<Rightarrow> av_object \<Rightarrow> mp_log option option" where
  "codec_context_log st s =
     (case codec s of
        None \<Rightarrow> None
      | Some c \<Rightarrow>
          if codec_type c = AVMEDIA_TYPE_AUDIO then
            (if decode c \<noteq> None then Some (log_decaudio st) else None)
          else if codec_type c = AVMEDIA_TYPE_VIDEO then
            (if decode c \<noteq> None then Some (log_decvideo st) else None)
          else None)"

definition null_class_warning :: string where
  "null_class_warning =
     ''av_log callback called with bad parameters (NULL AVClass).'' @ [CHR 10] @
     ''This is a bug in one of Libav/FFmpeg libraries used.'' @ [CHR 10]"

definition get_av_log ::
  "msg_levels \<Rightarrow> bridge \<Rightarrow> av_object option \<Rightarrow> mp_log option \<times> event list" where
  "get_av_log L st ptr =
     (case ptr of
        None \<Rightarrow> (log_root st, [])
      | Some s \<Rightarrow>
          (case av_class s of
             None \<Rightarrow> (log_root st, [Mp_msg_log (log_root st) (MSGL_WARN L) null_class_warning []])
           | Some avc \<Rightarrow>
               (case (if class_name avc = ''AVCodecContext'' then codec_context_log st s
                      else None) of
                  Some l \<Rightarrow> (l, [])
                | None \<Rightarrow>
                    if class_name avc = ''AVFormatContext'' \<and> iformat s \<noteq> None
                    then (log_demuxer st, [])
                    else (log_root st, []))))"

subsection \<open>The callback\<close>

text \<open>
  \<open>fmt[strlen(fmt) - 1]\<close>: the subtraction is in \<open>size_t\<close> (64 bits here) and wraps
  at 0; the read is inside the string (its terminating NUL included) or out of bounds.
  \<open>fmt\<close> is a C string that is not NULL, modelled by its characters before the NUL.
\<close>

definition SIZE_MAX :: nat where
  "SIZE_MAX = 2 ^ 64 - 1"

definition size_t_pred :: "nat \<Rightarrow> nat" where
  "size_t_pred n = (if n = 0 then SIZE_MAX else n - 1)"

definition char_at :: "string \<Rightarrow> nat \<Rightarrow> error + char" where
  "char_at s i =
     (if i < length s then Inr (s ! i)
      else if i = length s then Inr (CHR 0x00)
      else Inl Out_of_bounds_read)"

definition prefix_event :: "mp_log option \<Rightarrow> int \<Rightarrow> av_object option \<Rightarrow> event" where
  "prefix_event l mp_level ptr =
     Mp_msg_log l mp_level ''%s: ''
       [case (case ptr of None \<Rightarrow> None | Some s \<Rightarrow> av_class s) of
          None \<Rightarrow> ''?''
        | Some avc \<Rightarrow> item_name avc]"

text \<open>
  The callback returns the new values of the static variables and the calls it made. An
  out-of-bounds read is undefined behaviour: the model stops there with an error.
\<close>

definition mp_msg_av_log_callback ::
  "env \<Rightarrow> bridge \<Rightarrow> av_object option \<Rightarrow> int \<Rightarrow> string \<Rightarrow> va_list \<Rightarrow>
   error + (bridge \<times> event list)" where
  "mp_msg_av_log_callback E st ptr level fmt vl =
     (let mp_level = av_log_level_to_mp_level (msgl E) level in
      if log_mpv_instance st = None then Inr (st, [Vfprintf_stderr fmt vl])
      else
        (case get_av_log (msgl E) st ptr of
           (l, warned) \<Rightarrow>
             if mp_msg_test_log E l mp_level then
               (case char_at fmt (size_t_pred (length fmt)) of
                  Inl e \<Rightarrow> Inl e
                | Inr c \<Rightarrow>
                    Inr (st\<lparr>log_print_prefix := (c = CHR 10)\<rparr>,
                         warned
                         @ (if log_print_prefix st then [prefix_event l mp_level ptr] else [])
                         @ [Mp_msg_log_va l mp_level fmt vl]))
             else Inr (st, warned)))"

text \<open>
  The calls the callback makes to the two functions of the file that compute its
  level and its sink, in the order of the source: \<open>av_log_level_to_mp_level\<close> in the
  initialiser of \<open>mp_level\<close>, before the lock is taken and the instance pointer is
  looked at, and \<open>get_av_log\<close> after the test of the instance pointer, on the path of
  an attached instance only.
\<close>

datatype internal_call =
  Call_av_log_level_to_mp_level int
| Call_get_av_log "av_object option"

definition mp_msg_av_log_callback_calls ::
  "bridge \<Rightarrow> av_object option \<Rightarrow> int \<Rightarrow> internal_call list" where
  "mp_msg_av_log_callback_calls st ptr level =
     Call_av_log_level_to_mp_level level
     # (if log_mpv_instance st = None then [] else [Call_get_av_log ptr])"

subsection \<open>The text of a message\<close>

text \<open>
  \<open>mp_msg_log_va(log, mp_level, fmt, vl)\<close> logs \<open>fmt\<close> rendered with the arguments
  \<open>vl\<close> by the printf rules of C; the rendering is done in common/msg.c and the C
  library, outside the sources. Of the conversions the model has \<open>%s\<close>, which takes
  the next argument, a string, and \<open>%%\<close>; every other character sequence stands as
  it is written. The flag says whether the last character read was an unfinished
  \<open>%\<close>.
\<close>

fun vformat_from :: "bool \<Rightarrow> string \<Rightarrow> va_list \<Rightarrow> string" where
  "vformat_from pending [] vl = (if pending then [CHR ''%''] else [])"
| "vformat_from pending (c # cs) vl =
     (if pending then
        (if c = CHR ''s'' then
           (case vl of
              Va_str a # rest \<Rightarrow> a @ vformat_from False cs rest
            | _ \<Rightarrow> CHR ''%'' # c # vformat_from False cs vl)
         else if c = CHR ''%'' then CHR ''%'' # vformat_from False cs vl
         else CHR ''%'' # c # vformat_from False cs vl)
      else if c = CHR ''%'' then vformat_from True cs vl
      else c # vformat_from False cs vl)"

definition vformat :: "string \<Rightarrow> va_list \<Rightarrow> string" where
  "vformat fmt vl = vformat_from False fmt vl"

subsection \<open>Attaching and detaching\<close>

text \<open>
  \<open>global\<close> is a pointer that may be NULL. \<open>init_libav\<close> reads \<open>global->log\<close>
  only when no instance is attached. \<open>uninit_libav\<close> compares the pointer it is
  given with the attached one: the addresses, not what they point to.
  \<open>talloc_free(log_root)\<close> frees the root sink and its three children; the four
  pointer variables keep their values.
\<close>

definition register_events :: "env \<Rightarrow> event list" where
  "register_events E =
     [Avcodec_register_all, Av_register_all, Avformat_network_init]
     @ (if HAVE_LIBAVFILTER E then [Avfilter_register_all] else [])
     @ (if HAVE_LIBAVDEVICE E then [Avdevice_register_all] else [])"

definition attach :: "env \<Rightarrow> mpv_global \<Rightarrow> bridge \<Rightarrow> bridge" where
  "attach E g st =
     (let root = mp_log_new (global_log g) (LIB_PREFIX (LIBAVCODEC_VERSION_MICRO E)) in
      st\<lparr>log_mpv_instance := Some g,
         log_root := Some root,
         log_decaudio := Some (mp_log_new root ''audio''),
         log_decvideo := Some (mp_log_new root ''video''),
         log_demuxer := Some (mp_log_new root ''demuxer'')\<rparr>)"

definition init_libav ::
  "env \<Rightarrow> mpv_global option \<Rightarrow> bridge \<Rightarrow> error + (bridge \<times> event list)" where
  "init_libav E global st =
     (if log_mpv_instance st = None then
        (case global of
           None \<Rightarrow> Inl Null_dereference
         | Some g \<Rightarrow> Inr (attach E g st, Av_log_set_callback # register_events E))
      else Inr (st, register_events E))"

definition uninit_libav :: "mpv_global option \<Rightarrow> bridge \<Rightarrow> bridge \<times> event list" where
  "uninit_libav global st =
     (if map_option global_addr (log_mpv_instance st) = map_option global_addr global
      then (st\<lparr>log_mpv_instance := None\<rparr>, [Talloc_free (log_root st)])
      else (st, []))"

subsection \<open>Runs of the bridge\<close>

text \<open>
  Whether a message from \<open>ptr\<close> at \<open>level\<close> passes the test of the sink chosen
  for it: the condition of the \<open>if\<close> around the forwarding code.
\<close>

definition passes :: "env \<Rightarrow> bridge \<Rightarrow> av_object option \<Rightarrow> int \<Rightarrow> bool" where
  "passes E st ptr level =
     mp_msg_test_log E (fst (get_av_log (msgl E) st ptr))
       (av_log_level_to_mp_level (msgl E) level)"

text \<open>The callback invoked for a sequence of messages, one after the other.\<close>

type_synonym av_call = "av_object option \<times> int \<times> string \<times> va_list"

fun run_callbacks :: "env \<Rightarrow> bridge \<Rightarrow> av_call list \<Rightarrow> error + (bridge \<times> event list)" where
  "run_callbacks E st [] = Inr (st, [])"
| "run_callbacks E st ((ptr, level, fmt, vl) # cs) =
     (case mp_msg_av_log_callback E st ptr level fmt vl of
        Inl e \<Rightarrow> Inl e
      | Inr (st', evs) \<Rightarrow>
          (case run_callbacks E st' cs of
             Inl e \<Rightarrow> Inl e
           | Inr (st'', evs') \<Rightarrow> Inr (st'', evs @ evs')))"

text \<open>
  The states the three entry points can produce from the initial values of the static
  variables.
\<close>

inductive reachable :: "env \<Rightarrow> bridge \<Rightarrow> bool" for E :: env where
  reachable_init: "reachable E bridge_init"
| reachable_init_libav:
    "reachable E st \<Longrightarrow> init_libav E global st = Inr (st', evs) \<Longrightarrow> reachable E st'"
| reachable_uninit_libav:
    "reachable E st \<Longrightarrow> reachable E (fst (uninit_libav global st))"
| reachable_callback:
    "reachable E st \<Longrightarrow> mp_msg_av_log_callback E st ptr level fmt vl = Inr (st', evs) \<Longrightarrow>
     reachable E st'"

text \<open>
  While an instance is attached, the four sinks are the ones created for it: attaching
  it again would change nothing.
\<close>

definition attached_inv :: "env \<Rightarrow> bridge \<Rightarrow> bool" where
  "attached_inv E st =
     (case log_mpv_instance st of None \<Rightarrow> True | Some g \<Rightarrow> attach E g st = st)"

subsection \<open>The source identities the spec names\<close>

text \<open>
  A codec context whose codec is of media type \<open>t\<close> and has a decode function, and
  a format context with an input format, in the spec's words.
\<close>

definition is_decoder_context :: "AVMediaType \<Rightarrow> av_object option \<Rightarrow> bool" where
  "is_decoder_context t ptr =
     (case ptr of
        None \<Rightarrow> False
      | Some s \<Rightarrow>
          (case av_class s of
             None \<Rightarrow> False
           | Some avc \<Rightarrow>
               class_name avc = ''AVCodecContext'' \<and>
               (case codec s of
                  None \<Rightarrow> False
                | Some c \<Rightarrow> codec_type c = t \<and> decode c \<noteq> None)))"

definition is_demuxer_context :: "av_object option \<Rightarrow> bool" where
  "is_demuxer_context ptr =
     (case ptr of
        None \<Rightarrow> False
      | Some s \<Rightarrow>
          (case av_class s of
             None \<Rightarrow> False
           | Some avc \<Rightarrow> class_name avc = ''AVFormatContext'' \<and> iformat s \<noteq> None))"

subsection \<open>A concrete setting\<close>

text \<open>
  An environment with ffmpeg's prefix in which every sink takes the messages up to
  \<open>MSGL_V\<close>, an instance, the bridge attached to it, and an audio decoder.
\<close>

definition L_example :: msg_levels where
  "L_example = \<lparr>MSGL_FATAL = 0, MSGL_ERR = 1, MSGL_WARN = 2, MSGL_V = 6, MSGL_DBG2 = 7\<rparr>"

definition E_example :: env where
  "E_example =
     \<lparr>msgl = L_example, LIBAVCODEC_VERSION_MICRO = 100, HAVE_LIBAVFILTER = True,
      HAVE_LIBAVDEVICE = False, mp_msg_test_log = (\<lambda>l lev. lev \<le> 6)\<rparr>"

definition g_example :: mpv_global where
  "g_example = \<lparr>global_addr = 4096, global_log = [''mpv'']\<rparr>"

definition st_example :: bridge where
  "st_example = attach E_example g_example bridge_init"

definition audio_example :: av_object where
  "audio_example =
     \<lparr>av_class = Some \<lparr>class_name = ''AVCodecContext'', item_name = ''mp3''\<rparr>,
      codec = Some \<lparr>codec_type = AVMEDIA_TYPE_AUDIO, decode = Some 1\<rparr>,
      iformat = None\<rparr>"

section \<open>The mixer (the declarations of mixer.h)\<close>

text \<open>
  Of the mixer the sources hold the header only: the enumeration of the \<open>softvol\<close>
  option and the declarations of \<open>mixer_getvolume\<close>, \<open>mixer_setvolume\<close>,
  \<open>mixer_incvolume\<close>, \<open>mixer_decvolume\<close>, \<open>mixer_getbothvolume\<close>,
  \<open>mixer_setmute\<close>, \<open>mixer_getmute\<close>, \<open>mixer_getbalance\<close> and
  \<open>mixer_setbalance\<close>. Their bodies are modelled from sections 3 and 4.2 of the spec,
  under the names the spec gives them.
\<close>

text \<open>The values of \<open>MPOpts.softvol\<close>, the enumeration of mixer.h.\<close>

datatype softvol = SOFTVOL_NO | SOFTVOL_YES | SOFTVOL_AUTO

text \<open>
  Modelled from the spec: the resolved mechanism of a device binding (section 3,
  \<open>activeMode\<close>), which \<open>struct mixer\<close> of the missing mixer.c holds.
\<close>

datatype activeMode = HARDWARE | SOFTWARE

text \<open>
  Modelled from the spec: \<open>struct mixer\<close> of the missing mixer.c. The fields of
  VolumeState (section 3) are real numbers and a flag; \<open>binding\<close> is the device
  binding, of which a mixer owns "zero or one".
\<close>

record mixer =
  leftVolume :: real
  rightVolume :: real
  balance :: real
  mute :: bool
  softvolMode :: softvol
  binding :: "activeMode option"

text \<open>
  Modelled from the spec: the two external interfaces of section 6 through which the
  missing mixer.c applies a volume, \<open>deviceSetVolume(left, right)\<close> and
  \<open>filterSetGain(leftGain, rightGain)\<close>.
\<close>

datatype push = DeviceSetVolume real real | FilterSetGain real real

text \<open>
  Modelled from the spec: the clamping of the missing mixer.c ("clamps each input to
  [0, 100]", "balance clamped to [-1,1]").
\<close>

definition clamp :: "real \<Rightarrow> real \<Rightarrow> real \<Rightarrow> real" where
  "clamp lo hi x = max lo (min hi x)"

text \<open>
  Modelled from the spec: how the missing mixer.c drives the active mechanism. Under
  HARDWARE the device gets the volumes, under SOFTWARE the filter chain gets the gains
  "volumePercent/100 per channel"; while muted the mechanism "is driven to zero
  output"; without a binding nothing is driven.
\<close>

definition apply_volume :: "mixer \<Rightarrow> push list" where
  "apply_volume m =
     (let l = (if mute m then 0 else leftVolume m);
          r = (if mute m then 0 else rightVolume m)
      in case binding m of
           None \<Rightarrow> []
         | Some HARDWARE \<Rightarrow> [DeviceSetVolume l r]
         | Some SOFTWARE \<Rightarrow> [FilterSetGain (l / 100) (r / 100)])"

text \<open>
  Modelled from the spec: \<open>mixer_getvolume\<close> of the missing mixer.c, which "returns
  current per-channel percentages from VolumeState".
\<close>

definition getVolume :: "mixer \<Rightarrow> real \<times> real" where
  "getVolume m = (leftVolume m, rightVolume m)"

text \<open>
  Modelled from the spec: \<open>mixer_getbothvolume\<close> of the missing mixer.c, which
  "returns the average of left/right".
\<close>

definition getBothVolume :: "mixer \<Rightarrow> real" where
  "getBothVolume m = (leftVolume m + rightVolume m) / 2"

text \<open>
  Modelled from the spec: \<open>mixer_setvolume\<close> of the missing mixer.c. It "clamps each
  input to [0, 100]; stores into VolumeState; derives an implied balance from the
  left/right ratio (balance = (right-left)/(right+left) when right+left>0, else
  unchanged)" and, "if a binding exists, re-pushes to the active mechanism".
\<close>

definition setVolume :: "real \<Rightarrow> real \<Rightarrow> mixer \<Rightarrow> mixer \<times> push list" where
  "setVolume left right m =
     (let l = clamp 0 100 left;
          r = clamp 0 100 right;
          m' = m\<lparr>leftVolume := l, rightVolume := r,
                 balance := (if r + l > 0 then (r - l) / (r + l) else balance m)\<rparr>
      in (m', apply_volume m'))"

text \<open>
  Modelled from the spec: the per-channel values that the missing mixer.c derives from
  a combined volume and a balance. The spec gives no formula for them. It fixes the
  combined volume as the average of the channels and the balance as
  (right-left)/(right+left); the values below are the only ones with that average and
  that balance (lemma \<open>derive_unique\<close>).
\<close>

definition derive :: "real \<Rightarrow> real \<Rightarrow> real \<times> real" where
  "derive combined bal = (combined * (1 - bal), combined * (1 + bal))"

text \<open>
  Modelled from the spec: \<open>mixer_incvolume\<close> of the missing mixer.c. It and
  \<open>decVolume\<close> "adjust the combined volume by a fixed configured step", "clamped to
  [0,100], preserving balance, then behave as setVolume with the derived per-channel
  values". The step is an argument here.
\<close>

definition incVolume :: "real \<Rightarrow> mixer \<Rightarrow> mixer \<times> push list" where
  "incVolume step m =
     (case derive (clamp 0 100 (getBothVolume m + step)) (balance m) of
        (l, r) \<Rightarrow> setVolume l r m)"

text \<open>
  Modelled from the spec: \<open>mixer_decvolume\<close> of the missing mixer.c, the same with
  the step taken off the combined volume.
\<close>

definition decVolume :: "real \<Rightarrow> mixer \<Rightarrow> mixer \<times> push list" where
  "decVolume step m =
     (case derive (clamp 0 100 (getBothVolume m - step)) (balance m) of
        (l, r) \<Rightarrow> setVolume l r m)"

text \<open>
  Modelled from the spec: \<open>mixer_getbalance\<close> of the missing mixer.c, which reads
  the balance of VolumeState.
\<close>

definition getBalance :: "mixer \<Rightarrow> real" where
  "getBalance m = balance m"

text \<open>
  Modelled from the spec: \<open>mixer_setbalance\<close> of the missing mixer.c: "balance
  clamped to [-1,1]; setBalance recomputes left/right from the current combined volume
  and the new balance, then applies exactly as setVolume". The recomputed channels are
  clamped, stored and pushed as \<open>setVolume\<close> does it; the balance that stays in
  VolumeState is the new one, which section 8 has \<open>getBalance\<close> return "exactly
  (after clamping)".
\<close>

definition setBalance :: "real \<Rightarrow> mixer \<Rightarrow> mixer \<times> push list" where
  "setBalance bal m =
     (let b = clamp (- 1) 1 bal in
      case derive (getBothVolume m) b of
        (l, r) \<Rightarrow>
          (let m' = (fst (setVolume l r m))\<lparr>balance := b\<rparr> in (m', apply_volume m')))"

text \<open>
  Modelled from the spec: \<open>mixer_setmute\<close> of the missing mixer.c. "Toggling mute does not alter stored volume/balance; when entering mute,
  the active mechanism is driven to zero output; when leaving mute, the mechanism is
  re-driven to the stored volume. No binding required for the flag itself to change".
\<close>

definition setMute :: "bool \<Rightarrow> mixer \<Rightarrow> mixer \<times> push list" where
  "setMute b m = (let m' = m\<lparr>mute := b\<rparr> in (m', apply_volume m'))"

text \<open>
  Modelled from the spec: \<open>mixer_getmute\<close> of the missing mixer.c, which reads the
  mute flag.
\<close>

definition getMute :: "mixer \<Rightarrow> bool" where
  "getMute m = mute m"

text \<open>
  Modelled from the spec: the data model's conditions on a VolumeState (section 3).
  The volumes are in [0, 100], the balance is in [-1, 1], and left and right are
  "derivable from a single combined volume plus balance".
\<close>

definition VolumeState_ok :: "mixer \<Rightarrow> bool" where
  "VolumeState_ok m =
     (0 \<le> leftVolume m \<and> leftVolume m \<le> 100 \<and>
      0 \<le> rightVolume m \<and> rightVolume m \<le> 100 \<and>
      - 1 \<le> balance m \<and> balance m \<le> 1 \<and>
      derive (getBothVolume m) (balance m) = (leftVolume m, rightVolume m))"

text \<open>
  Modelled from the spec: the fresh mixer of the scenarios of section 8, "default
  volume 100/100/balance 0/unmuted", not yet bound to a device.
\<close>

definition fresh_mixer :: mixer where
  "fresh_mixer =
     \<lparr>leftVolume = 100, rightVolume = 100, balance = 0, mute = False,
      softvolMode = SOFTVOL_AUTO, binding = None\<rparr>"

text \<open>
  Modelled from the spec: a mixer within the data model of section 3 that is silent,
  off centre and bound to a device in hardware mode.
\<close>

definition silent_mixer :: mixer where
  "silent_mixer =
     \<lparr>leftVolume = 0, rightVolume = 0, balance = 1 / 4, mute = False,
      softvolMode = SOFTVOL_NO, binding = Some HARDWARE\<rparr>"

text \<open>
  Modelled from the spec: the part of the data model of section 3 that every operation
  of section 4.2 keeps, \<open>setBalance\<close> included: the ranges of the three numbers, and a
  centred balance while both channels are at 100.
\<close>

definition VolumeState_kept :: "mixer \<Rightarrow> bool" where
  "VolumeState_kept m =
     (0 \<le> leftVolume m \<and> leftVolume m \<le> 100 \<and>
      0 \<le> rightVolume m \<and> rightVolume m \<le> 100 \<and>
      - 1 \<le> balance m \<and> balance m \<le> 1 \<and>
      (leftVolume m = 100 \<and> rightVolume m = 100 \<longrightarrow> balance m = 0))"

section \<open>Properties of the bridge\<close>

subsection \<open>Auxiliary facts\<close>

lemmas av_levels = AV_LOG_FATAL_def AV_LOG_ERROR_def AV_LOG_WARNING_def AV_LOG_INFO_def
  AV_LOG_VERBOSE_def AV_LOG_DEBUG_def

lemma av_log_level_to_mp_level_mono:
  assumes "msgl_ordered L" and "a \<le> b"
  shows "av_log_level_to_mp_level L a \<le> av_log_level_to_mp_level L b"
  using assms
  by (auto simp: msgl_ordered_def av_log_level_to_mp_level_def av_levels)

lemma av_log_level_to_mp_level_range:
  "av_log_level_to_mp_level L a \<in> {MSGL_FATAL L, MSGL_ERR L, MSGL_WARN L, MSGL_V L, MSGL_DBG2 L}"
  by (simp add: av_log_level_to_mp_level_def)

lemma av_log_level_to_mp_level_band:
  "av_log_level_to_mp_level L a =
     (if a \<le> AV_LOG_FATAL then MSGL_FATAL L
      else if a \<le> AV_LOG_ERROR then MSGL_ERR L
      else if a \<le> AV_LOG_WARNING then MSGL_WARN L
      else if a \<le> AV_LOG_VERBOSE then MSGL_V L
      else MSGL_DBG2 L)"
  by (simp add: av_log_level_to_mp_level_def av_levels)

lemma av_log_level_to_mp_level_bands:
  "av_log_level_to_mp_level L AV_LOG_FATAL = MSGL_FATAL L"
  "av_log_level_to_mp_level L AV_LOG_ERROR = MSGL_ERR L"
  "av_log_level_to_mp_level L AV_LOG_WARNING = MSGL_WARN L"
  "av_log_level_to_mp_level L AV_LOG_INFO = MSGL_V L"
  "av_log_level_to_mp_level L AV_LOG_VERBOSE = MSGL_V L"
  "av_log_level_to_mp_level L AV_LOG_DEBUG = MSGL_DBG2 L"
  by (simp_all add: av_log_level_to_mp_level_def av_levels)

lemma get_av_log_sink:
  "fst (get_av_log L st ptr) =
     (if is_decoder_context AVMEDIA_TYPE_AUDIO ptr then log_decaudio st
      else if is_decoder_context AVMEDIA_TYPE_VIDEO ptr then log_decvideo st
      else if is_demuxer_context ptr then log_demuxer st
      else log_root st)"
  by (auto simp: get_av_log_def codec_context_log_def is_decoder_context_def
      is_demuxer_context_def split: option.splits)

lemma get_av_log_events:
  "snd (get_av_log L st ptr) =
     (case ptr of
        None \<Rightarrow> []
      | Some s \<Rightarrow>
          (case av_class s of
             None \<Rightarrow> [Mp_msg_log (log_root st) (MSGL_WARN L) null_class_warning []]
           | Some avc \<Rightarrow> []))"
  by (simp add: get_av_log_def split: option.splits)

lemma get_av_log_prefix_flag [simp]:
  "get_av_log L (st\<lparr>log_print_prefix := b\<rparr>) ptr = get_av_log L st ptr"
  by (simp add: prod_eq_iff get_av_log_sink get_av_log_events split: option.splits)

lemma passes_prefix_flag [simp]:
  "passes E (st\<lparr>log_print_prefix := b\<rparr>) ptr level = passes E st ptr level"
  by (simp add: passes_def)

lemma char_at_last:
  "fmt \<noteq> [] \<Longrightarrow> char_at fmt (size_t_pred (length fmt)) = Inr (last fmt)"
  by (simp add: char_at_def size_t_pred_def last_conv_nth)

lemma char_at_empty: "char_at [] (size_t_pred 0) = Inl Out_of_bounds_read"
  by (simp add: char_at_def size_t_pred_def SIZE_MAX_def)

lemma callback_forwards:
  assumes "log_mpv_instance st \<noteq> None" and "passes E st ptr level" and "fmt \<noteq> []"
  shows "mp_msg_av_log_callback E st ptr level fmt vl =
    Inr (st\<lparr>log_print_prefix := (last fmt = CHR 10)\<rparr>,
         snd (get_av_log (msgl E) st ptr)
         @ (if log_print_prefix st
            then [prefix_event (fst (get_av_log (msgl E) st ptr))
                    (av_log_level_to_mp_level (msgl E) level) ptr]
            else [])
         @ [Mp_msg_log_va (fst (get_av_log (msgl E) st ptr))
              (av_log_level_to_mp_level (msgl E) level) fmt vl])"
  using assms
  by (cases "log_mpv_instance st")
    (simp_all add: mp_msg_av_log_callback_def Let_def passes_def char_at_last case_prod_beta)

lemma callback_filtered:
  assumes "log_mpv_instance st \<noteq> None" and "\<not> passes E st ptr level"
  shows "mp_msg_av_log_callback E st ptr level fmt vl =
    Inr (st, snd (get_av_log (msgl E) st ptr))"
  using assms
  by (cases "log_mpv_instance st")
    (simp_all add: mp_msg_av_log_callback_def Let_def passes_def case_prod_beta)

lemma callback_empty_fmt:
  assumes "log_mpv_instance st \<noteq> None" and "passes E st ptr level"
  shows "mp_msg_av_log_callback E st ptr level [] vl = Inl Out_of_bounds_read"
  using assms
  by (cases "log_mpv_instance st")
    (simp_all add: mp_msg_av_log_callback_def Let_def passes_def char_at_empty case_prod_beta)

lemma callback_detached:
  assumes "log_mpv_instance st = None"
  shows "mp_msg_av_log_callback E st ptr level fmt vl = Inr (st, [Vfprintf_stderr fmt vl])"
  using assms by (simp add: mp_msg_av_log_callback_def Let_def)

lemma run_callbacks_filtered:
  assumes "log_mpv_instance st \<noteq> None"
    and "\<forall>c \<in> set cs. \<not> passes E st (fst c) (fst (snd c))"
  shows "run_callbacks E st cs =
    Inr (st, concat (map (\<lambda>c. snd (get_av_log (msgl E) st (fst c))) cs))"
  using assms
proof (induction cs)
  case Nil
  then show ?case by simp
next
  case (Cons c cs)
  obtain ptr level fmt vl where c: "c = (ptr, level, fmt, vl)"
    by (cases c) auto
  from Cons.prems have "\<not> passes E st ptr level"
    by (simp add: c)
  with Cons.prems(1)
  have "mp_msg_av_log_callback E st ptr level fmt vl =
      Inr (st, snd (get_av_log (msgl E) st ptr))"
    by (rule callback_filtered)
  moreover from Cons have "run_callbacks E st cs =
      Inr (st, concat (map (\<lambda>c. snd (get_av_log (msgl E) st (fst c))) cs))"
    by simp
  ultimately show ?case by (simp add: c)
qed


lemma attach_fields:
  "log_mpv_instance (attach E g st) = Some g"
  "log_root (attach E g st) = Some (global_log g @ [LIB_PREFIX (LIBAVCODEC_VERSION_MICRO E)])"
  "log_decaudio (attach E g st) =
     Some (global_log g @ [LIB_PREFIX (LIBAVCODEC_VERSION_MICRO E), ''audio''])"
  "log_decvideo (attach E g st) =
     Some (global_log g @ [LIB_PREFIX (LIBAVCODEC_VERSION_MICRO E), ''video''])"
  "log_demuxer (attach E g st) =
     Some (global_log g @ [LIB_PREFIX (LIBAVCODEC_VERSION_MICRO E), ''demuxer''])"
  "log_print_prefix (attach E g st) = log_print_prefix st"
  by (simp_all add: attach_def Let_def mp_log_new_def)

lemma attach_idem: "attach E g (attach E g st) = attach E g st"
  by (simp add: attach_def Let_def)

lemma attach_prefix_flag:
  "attach E g (st\<lparr>log_print_prefix := b\<rparr>) = (attach E g st)\<lparr>log_print_prefix := b\<rparr>"
  by (simp add: attach_def Let_def)

lemma init_libav_detached:
  "log_mpv_instance st = None \<Longrightarrow>
   init_libav E (Some g) st = Inr (attach E g st, Av_log_set_callback # register_events E)"
  by (simp add: init_libav_def)

lemma init_libav_attached:
  "log_mpv_instance st \<noteq> None \<Longrightarrow> init_libav E global st = Inr (st, register_events E)"
  by (cases "log_mpv_instance st") (simp_all add: init_libav_def)

lemma uninit_libav_other:
  "log_mpv_instance st = Some g \<Longrightarrow> map_option global_addr global \<noteq> Some (global_addr g) \<Longrightarrow>
   uninit_libav global st = (st, [])"
  by (cases global) (simp_all add: uninit_libav_def)

lemma uninit_libav_match:
  "log_mpv_instance st = Some g \<Longrightarrow> global_addr g' = global_addr g \<Longrightarrow>
   uninit_libav (Some g') st = (st\<lparr>log_mpv_instance := None\<rparr>, [Talloc_free (log_root st)])"
  by (simp add: uninit_libav_def)

lemma callback_state:
  assumes "mp_msg_av_log_callback E st ptr level fmt vl = Inr (st', evs)"
  shows "\<exists>b. st' = st\<lparr>log_print_prefix := b\<rparr>"
proof (cases "log_mpv_instance st = None")
  case True
  with assms have "st' = st"
    by (simp add: callback_detached)
  then have "st' = st\<lparr>log_print_prefix := log_print_prefix st\<rparr>"
    by simp
  then show ?thesis ..
next
  case False
  show ?thesis
  proof (cases "passes E st ptr level")
    case True
    show ?thesis
    proof (cases "fmt = []")
      case True
      with assms \<open>passes E st ptr level\<close> False show ?thesis
        by (simp add: callback_empty_fmt)
    next
      case False
      from callback_forwards [OF \<open>log_mpv_instance st \<noteq> None\<close> True False, of vl] assms
      show ?thesis by auto
    qed
  next
    case nopass: False
    from callback_filtered [OF False nopass, of fmt vl] assms have "st' = st"
      by simp
    then have "st' = st\<lparr>log_print_prefix := log_print_prefix st\<rparr>"
      by simp
    then show ?thesis ..
  qed
qed

lemma reachable_attached_inv: "reachable E st \<Longrightarrow> attached_inv E st"
proof (induction rule: reachable.induct)
  case reachable_init
  show ?case by (simp add: attached_inv_def bridge_init_def)
next
  case (reachable_init_libav st global st' evs)
  show ?case
  proof (cases "log_mpv_instance st")
    case None
    with reachable_init_libav.hyps(2) obtain g where "st' = attach E g st"
      by (cases global) (auto simp: init_libav_def)
    then show ?thesis
      by (simp add: attached_inv_def attach_fields attach_idem)
  next
    case (Some g)
    with reachable_init_libav.hyps(2) have "st' = st"
      by (simp add: init_libav_def)
    with reachable_init_libav.IH show ?thesis by simp
  qed
next
  case (reachable_uninit_libav st global)
  then show ?case
    by (cases "map_option global_addr (log_mpv_instance st) = map_option global_addr global")
      (simp_all add: uninit_libav_def attached_inv_def)
next
  case (reachable_callback st ptr level fmt vl st' evs)
  from callback_state [OF reachable_callback.hyps(2)]
  obtain b where "st' = st\<lparr>log_print_prefix := b\<rparr>" ..
  with reachable_callback.IH show ?case
    by (auto simp: attached_inv_def attach_prefix_flag split: option.splits)
qed

lemma attached_sinks_distinct:
  assumes "attached_inv E st" and "log_mpv_instance st \<noteq> None"
  shows "distinct [log_root st, log_decaudio st, log_decvideo st, log_demuxer st]"
proof -
  from assms obtain g where "attach E g st = st"
    by (auto simp: attached_inv_def)
  then have "distinct [log_root (attach E g st), log_decaudio (attach E g st),
      log_decvideo (attach E g st), log_demuxer (attach E g st)] \<Longrightarrow> ?thesis"
    by simp
  then show ?thesis
    by (simp add: attach_fields)
qed

subsection \<open>The claims\<close>

text \<open>
  C4. The severity translation is total and monotone: a native level at least as severe
  as another (numerically not larger) gets an application level at least as severe,
  every native level gets one of the five application levels the bridge uses, and the
  six native bands fatal, error, warning, info, verbose and debug (each the levels up
  to its constant and above the one before) get \<open>MSGL_FATAL\<close>, \<open>MSGL_ERR\<close>,
  \<open>MSGL_WARN\<close>, \<open>MSGL_V\<close>, \<open>MSGL_V\<close> and \<open>MSGL_DBG2\<close>.
\<close>

theorem severity_translation_monotone:
  assumes "msgl_ordered L"
  shows "(\<forall>a b. a \<le> b \<longrightarrow> av_log_level_to_mp_level L a \<le> av_log_level_to_mp_level L b) \<and>
    (\<forall>a. av_log_level_to_mp_level L a \<in>
       {MSGL_FATAL L, MSGL_ERR L, MSGL_WARN L, MSGL_V L, MSGL_DBG2 L}) \<and>
    (\<forall>a. av_log_level_to_mp_level L a =
       (if a \<le> AV_LOG_FATAL then MSGL_FATAL L
        else if a \<le> AV_LOG_ERROR then MSGL_ERR L
        else if a \<le> AV_LOG_WARNING then MSGL_WARN L
        else if a \<le> AV_LOG_VERBOSE then MSGL_V L
        else MSGL_DBG2 L)) \<and>
    av_log_level_to_mp_level L AV_LOG_FATAL = MSGL_FATAL L \<and>
    av_log_level_to_mp_level L AV_LOG_ERROR = MSGL_ERR L \<and>
    av_log_level_to_mp_level L AV_LOG_WARNING = MSGL_WARN L \<and>
    av_log_level_to_mp_level L AV_LOG_INFO = MSGL_V L \<and>
    av_log_level_to_mp_level L AV_LOG_VERBOSE = MSGL_V L \<and>
    av_log_level_to_mp_level L AV_LOG_DEBUG = MSGL_DBG2 L"
  using av_log_level_to_mp_level_mono [OF assms] av_log_level_to_mp_level_range [of L]
    av_log_level_to_mp_level_band [of L]
  by (simp add: av_log_level_to_mp_level_bands)

theorem severity_translation_monotone_witness:
  "msgl_ordered L_example \<and>
   av_log_level_to_mp_level L_example AV_LOG_ERROR
     \<le> av_log_level_to_mp_level L_example AV_LOG_DEBUG \<and>
   av_log_level_to_mp_level L_example 33 \<in> {0, 1, 2, 6, 7} \<and>
   av_log_level_to_mp_level L_example AV_LOG_INFO = 6"
proof -
  have h: "msgl_ordered L_example"
    by (simp add: msgl_ordered_def L_example_def)
  have le: "AV_LOG_ERROR \<le> AV_LOG_DEBUG"
    by (simp add: av_levels)
  note translation = severity_translation_monotone [OF h]
  from translation
  have mono: "\<forall>a b. a \<le> b \<longrightarrow>
      av_log_level_to_mp_level L_example a \<le> av_log_level_to_mp_level L_example b"
    by (elim conjE)
  from translation
  have "\<forall>a. av_log_level_to_mp_level L_example a \<in>
      {MSGL_FATAL L_example, MSGL_ERR L_example, MSGL_WARN L_example, MSGL_V L_example,
       MSGL_DBG2 L_example}"
    by (elim conjE)
  then have range: "av_log_level_to_mp_level L_example 33 \<in>
      {MSGL_FATAL L_example, MSGL_ERR L_example, MSGL_WARN L_example, MSGL_V L_example,
       MSGL_DBG2 L_example}"
    by (rule spec)
  from translation
  have info: "av_log_level_to_mp_level L_example AV_LOG_INFO = MSGL_V L_example"
    by (elim conjE)
  from mono le have "av_log_level_to_mp_level L_example AV_LOG_ERROR
      \<le> av_log_level_to_mp_level L_example AV_LOG_DEBUG"
    by blast
  with h range info show ?thesis
    by (simp add: L_example_def)
qed

text \<open>
  C2. The sink selection is total and returns one of the four sinks: the audio sink
  for a codec context whose codec is of audio type and has a decode function, the video
  sink for one whose codec is of video type and has a decode function, the demuxer sink
  for a format context with an input format, and the root sink for everything else, a
  NULL pointer and a NULL class among it. While an instance is attached the four sinks
  are four different ones.
\<close>

theorem get_av_log_selects_sink:
  "fst (get_av_log L st ptr) =
     (if is_decoder_context AVMEDIA_TYPE_AUDIO ptr then log_decaudio st
      else if is_decoder_context AVMEDIA_TYPE_VIDEO ptr then log_decvideo st
      else if is_demuxer_context ptr then log_demuxer st
      else log_root st) \<and>
   fst (get_av_log L st ptr) \<in> {log_root st, log_decaudio st, log_decvideo st, log_demuxer st} \<and>
   fst (get_av_log L st None) = log_root st \<and>
   (av_class s = None \<longrightarrow> fst (get_av_log L st (Some s)) = log_root st) \<and>
   (attached_inv E st \<and> log_mpv_instance st \<noteq> None \<longrightarrow>
      distinct [log_root st, log_decaudio st, log_decvideo st, log_demuxer st])"
proof -
  have "fst (get_av_log L st None) = log_root st"
    by (simp add: get_av_log_def)
  moreover have "av_class s = None \<longrightarrow> fst (get_av_log L st (Some s)) = log_root st"
    by (simp add: get_av_log_def)
  ultimately show ?thesis
    using attached_sinks_distinct [of E st]
    by (simp add: get_av_log_sink)
qed

theorem get_av_log_selects_sink_witness:
  "fst (get_av_log L_example st_example (Some audio_example)) = Some [''mpv'', ''ffmpeg'', ''audio''] \<and>
   fst (get_av_log L_example st_example (Some (audio_example\<lparr>av_class := None\<rparr>)))
     = Some [''mpv'', ''ffmpeg''] \<and>
   attached_inv E_example st_example \<and> log_mpv_instance st_example \<noteq> None \<and>
   distinct [log_root st_example, log_decaudio st_example, log_decvideo st_example,
     log_demuxer st_example]"
proof -
  have inv: "attached_inv E_example st_example"
    by (simp add: attached_inv_def st_example_def attach_fields attach_idem)
  have att: "log_mpv_instance st_example \<noteq> None"
    by (simp add: st_example_def attach_fields)
  have cls: "av_class (audio_example\<lparr>av_class := None\<rparr>) = None"
    by simp
  have audio: "is_decoder_context AVMEDIA_TYPE_AUDIO (Some audio_example)"
    by (simp add: is_decoder_context_def audio_example_def)
  from get_av_log_selects_sink [of L_example st_example "Some audio_example"
      "audio_example\<lparr>av_class := None\<rparr>" E_example] inv att cls audio
  show ?thesis
    by (simp add: st_example_def attach_fields E_example_def g_example_def LIB_PREFIX_def)
qed

text \<open>
  C3. Attach once, detach on a match. In the detached state \<open>init_libav\<close> with an
  instance \<open>g\<close> attaches \<open>g\<close> and creates the four sinks under \<open>g\<close>'s log. While
  an instance is attached, \<open>init_libav\<close> leaves the state as it is, whatever its
  argument. \<open>uninit_libav\<close> with a pointer to another address than the attached one,
  NULL among them, leaves the state as it is; with a pointer to the attached address,
  whatever the instance's members hold by then, it clears the instance pointer, frees
  the root sink and changes no other variable. So in every reachable state at most one
  instance is attached, and the sinks are the ones created for it.
\<close>

theorem attach_once_detach_on_match:
  "(log_mpv_instance st = None \<longrightarrow>
      init_libav E (Some g) st = Inr (attach E g st, Av_log_set_callback # register_events E) \<and>
      log_mpv_instance (attach E g st) = Some g \<and>
      log_root (attach E g st) = Some (global_log g @ [LIB_PREFIX (LIBAVCODEC_VERSION_MICRO E)]) \<and>
      log_decaudio (attach E g st) =
        Some (global_log g @ [LIB_PREFIX (LIBAVCODEC_VERSION_MICRO E), ''audio'']) \<and>
      log_decvideo (attach E g st) =
        Some (global_log g @ [LIB_PREFIX (LIBAVCODEC_VERSION_MICRO E), ''video'']) \<and>
      log_demuxer (attach E g st) =
        Some (global_log g @ [LIB_PREFIX (LIBAVCODEC_VERSION_MICRO E), ''demuxer''])) \<and>
   (log_mpv_instance st \<noteq> None \<longrightarrow> init_libav E global st = Inr (st, register_events E)) \<and>
   (log_mpv_instance st = Some g \<and> map_option global_addr global \<noteq> Some (global_addr g) \<longrightarrow>
      uninit_libav global st = (st, [])) \<and>
   (log_mpv_instance st = Some g \<and> global_addr g' = global_addr g \<longrightarrow>
      uninit_libav (Some g') st =
        (st\<lparr>log_mpv_instance := None\<rparr>, [Talloc_free (log_root st)])) \<and>
   (reachable E st \<longrightarrow> attached_inv E st)"
  using init_libav_detached [of st E g] init_libav_attached [of st E global]
    uninit_libav_other [of st g global] uninit_libav_match [of st g g']
    reachable_attached_inv [of E st]
  by (simp add: attach_fields)

theorem attach_once_detach_on_match_witness:
  "log_mpv_instance bridge_init = None \<and>
   init_libav E_example (Some g_example) bridge_init =
     Inr (st_example,
       [Av_log_set_callback, Avcodec_register_all, Av_register_all, Avformat_network_init,
        Avfilter_register_all]) \<and>
   log_mpv_instance st_example = Some g_example \<and>
   log_decaudio st_example = Some [''mpv'', ''ffmpeg'', ''audio''] \<and>
   init_libav E_example (Some (g_example\<lparr>global_addr := 8192\<rparr>)) st_example =
     Inr (st_example,
       [Avcodec_register_all, Av_register_all, Avformat_network_init, Avfilter_register_all]) \<and>
   uninit_libav (Some (g_example\<lparr>global_addr := 8192\<rparr>)) st_example = (st_example, []) \<and>
   uninit_libav (Some (g_example\<lparr>global_log := [''other'']\<rparr>)) st_example =
     (st_example\<lparr>log_mpv_instance := None\<rparr>, [Talloc_free (Some [''mpv'', ''ffmpeg''])]) \<and>
   reachable E_example st_example \<and> attached_inv E_example st_example"
proof -
  have det: "log_mpv_instance bridge_init = None"
    by (simp add: bridge_init_def)
  have att: "log_mpv_instance st_example = Some g_example"
    by (simp add: st_example_def attach_fields)
  have other:
    "map_option global_addr (Some (g_example\<lparr>global_addr := 8192\<rparr>)) \<noteq> Some (global_addr g_example)"
    by (simp add: g_example_def)
  have same: "global_addr (g_example\<lparr>global_log := [''other'']\<rparr>) = global_addr g_example"
    by simp
  have regs: "register_events E_example =
      [Avcodec_register_all, Av_register_all, Avformat_network_init, Avfilter_register_all]"
    by (simp add: register_events_def E_example_def)
  have names: "global_log g_example = [''mpv'']"
    "LIB_PREFIX (LIBAVCODEC_VERSION_MICRO E_example) = ''ffmpeg''"
    by (simp_all add: g_example_def E_example_def LIB_PREFIX_def)
  from attach_once_detach_on_match [of bridge_init E_example g_example "Some g_example"] det
  have first: "init_libav E_example (Some g_example) bridge_init =
      Inr (st_example, Av_log_set_callback # register_events E_example)"
    and audio: "log_decaudio st_example = Some [''mpv'', ''ffmpeg'', ''audio'']"
    and root: "log_root st_example = Some [''mpv'', ''ffmpeg'']"
    by (simp_all add: st_example_def names)
  from reachable_init [of E_example] first have reach: "reachable E_example st_example"
    by (rule reachable_init_libav)
  from attach_once_detach_on_match
    [of st_example E_example g_example "Some (g_example\<lparr>global_addr := 8192\<rparr>)"
      "g_example\<lparr>global_log := [''other'']\<rparr>"]
    att other same reach
  have second: "init_libav E_example (Some (g_example\<lparr>global_addr := 8192\<rparr>)) st_example =
      Inr (st_example, register_events E_example)"
    and third: "uninit_libav (Some (g_example\<lparr>global_addr := 8192\<rparr>)) st_example =
      (st_example, [])"
    and fourth: "uninit_libav (Some (g_example\<lparr>global_log := [''other'']\<rparr>)) st_example =
      (st_example\<lparr>log_mpv_instance := None\<rparr>, [Talloc_free (log_root st_example)])"
    and inv: "attached_inv E_example st_example"
    by simp_all
  from det first att audio second third fourth reach inv show ?thesis
    by (simp only: regs root simp_thms)
qed

text \<open>
  C1, as the spec states it: the prefix flag after a forwarded call says whether that
  call's message ended in a newline, and the next forwarded message gets the label
  exactly then. That fails where the format string and the message end differently.
  With the format \<open>"%s"\<close> and an argument that ends in a newline the message ends in
  a newline, yet the flag is cleared, and the next message is logged without the
  label.
\<close>

theorem prefix_follows_message_counterexample:
  "log_mpv_instance st_example \<noteq> None \<and>
   passes E_example st_example None AV_LOG_ERROR \<and>
   last (vformat ''%s'' [Va_str (''hello'' @ [CHR 10])]) = CHR 10 \<and>
   mp_msg_av_log_callback E_example st_example None AV_LOG_ERROR
       ''%s'' [Va_str (''hello'' @ [CHR 10])] =
     Inr (st_example\<lparr>log_print_prefix := False\<rparr>,
          [Mp_msg_log (Some [''mpv'', ''ffmpeg'']) 1 ''%s: '' [''?''],
           Mp_msg_log_va (Some [''mpv'', ''ffmpeg'']) 1 ''%s'' [Va_str (''hello'' @ [CHR 10])]]) \<and>
   log_print_prefix (st_example\<lparr>log_print_prefix := False\<rparr>) \<noteq>
     (last (vformat ''%s'' [Va_str (''hello'' @ [CHR 10])]) = CHR 10) \<and>
   mp_msg_av_log_callback E_example (st_example\<lparr>log_print_prefix := False\<rparr>)
       None AV_LOG_ERROR ''more'' [] =
     Inr (st_example\<lparr>log_print_prefix := False\<rparr>,
          [Mp_msg_log_va (Some [''mpv'', ''ffmpeg'']) 1 ''more'' []])"
proof -
  have att: "log_mpv_instance st_example \<noteq> None"
    by (simp add: st_example_def attach_fields)
  have p: "passes E_example st_example None AV_LOG_ERROR"
    by (simp add: passes_def E_example_def L_example_def av_log_level_to_mp_level_bands)
  have ends: "last (vformat ''%s'' [Va_str (''hello'' @ [CHR 10])]) = CHR 10"
    by (simp add: vformat_def)
  have root: "fst (get_av_log (msgl E_example) st_example None) = Some [''mpv'', ''ffmpeg'']"
    and quiet_sink: "snd (get_av_log (msgl E_example) st_example None) = []"
    by (simp_all add: get_av_log_def st_example_def attach_fields g_example_def
        E_example_def LIB_PREFIX_def)
  have err: "av_log_level_to_mp_level (msgl E_example) AV_LOG_ERROR = 1"
    by (simp add: E_example_def L_example_def av_log_level_to_mp_level_bands)
  have flag: "log_print_prefix st_example"
    by (simp add: st_example_def attach_fields bridge_init_def)
  have first: "mp_msg_av_log_callback E_example st_example None AV_LOG_ERROR
       ''%s'' [Va_str (''hello'' @ [CHR 10])] =
     Inr (st_example\<lparr>log_print_prefix := False\<rparr>,
          [Mp_msg_log (Some [''mpv'', ''ffmpeg'']) 1 ''%s: '' [''?''],
           Mp_msg_log_va (Some [''mpv'', ''ffmpeg'']) 1 ''%s'' [Va_str (''hello'' @ [CHR 10])]])"
    using callback_forwards [OF att p, of "''%s''" "[Va_str (''hello'' @ [CHR 10])]"]
    by (simp add: root quiet_sink err flag prefix_event_def)
  have att': "log_mpv_instance (st_example\<lparr>log_print_prefix := False\<rparr>) \<noteq> None"
    using att by simp
  have p': "passes E_example (st_example\<lparr>log_print_prefix := False\<rparr>) None AV_LOG_ERROR"
    using p by simp
  have second: "mp_msg_av_log_callback E_example (st_example\<lparr>log_print_prefix := False\<rparr>)
       None AV_LOG_ERROR ''more'' [] =
     Inr (st_example\<lparr>log_print_prefix := False\<rparr>,
          [Mp_msg_log_va (Some [''mpv'', ''ffmpeg'']) 1 ''more'' []])"
    using callback_forwards [OF att' p', of "''more''" "[]"]
    by (simp add: root quiet_sink err)
  from ends have differ: "log_print_prefix (st_example\<lparr>log_print_prefix := False\<rparr>) \<noteq>
     (last (vformat ''%s'' [Va_str (''hello'' @ [CHR 10])]) = CHR 10)"
    by simp
  from att p ends first differ second show ?thesis
    by blast
qed

text \<open>
  C1, amended: the incomplete-line rule goes by the format string. Take two messages
  that the bridge forwards one after the other while an instance is attached (each
  passes the test of its sink and has a format string that is not empty), with any
  number of messages in between that the sinks turn down. After the first message the
  prefix flag says whether its format string ended in a newline; the messages in
  between leave the state as it is; and the second message is logged with the
  \<open>"%s: "\<close> label exactly if the format string of the first ended in a newline,
  after which the flag says whether that of the second did.
\<close>

theorem prefix_follows_previous_newline:
  assumes "log_mpv_instance st \<noteq> None"
    and "passes E st ptr1 level1" and "fmt1 \<noteq> []"
    and "\<forall>c \<in> set quiet. \<not> passes E st (fst c) (fst (snd c))"
    and "passes E st ptr2 level2" and "fmt2 \<noteq> []"
  shows "\<exists>ev1 evq.
    mp_msg_av_log_callback E st ptr1 level1 fmt1 vl1 =
      Inr (st\<lparr>log_print_prefix := (last fmt1 = CHR 10)\<rparr>, ev1) \<and>
    run_callbacks E (st\<lparr>log_print_prefix := (last fmt1 = CHR 10)\<rparr>) quiet =
      Inr (st\<lparr>log_print_prefix := (last fmt1 = CHR 10)\<rparr>, evq) \<and>
    mp_msg_av_log_callback E (st\<lparr>log_print_prefix := (last fmt1 = CHR 10)\<rparr>)
        ptr2 level2 fmt2 vl2 =
      Inr (st\<lparr>log_print_prefix := (last fmt2 = CHR 10)\<rparr>,
           snd (get_av_log (msgl E) st ptr2)
           @ (if last fmt1 = CHR 10
              then [prefix_event (fst (get_av_log (msgl E) st ptr2))
                      (av_log_level_to_mp_level (msgl E) level2) ptr2]
              else [])
           @ [Mp_msg_log_va (fst (get_av_log (msgl E) st ptr2))
                (av_log_level_to_mp_level (msgl E) level2) fmt2 vl2])"
proof -
  let ?st1 = "st\<lparr>log_print_prefix := (last fmt1 = CHR 10)\<rparr>"
  have att1: "log_mpv_instance ?st1 \<noteq> None"
    using assms(1) by simp
  have first: "\<exists>ev1. mp_msg_av_log_callback E st ptr1 level1 fmt1 vl1 = Inr (?st1, ev1)"
    using callback_forwards [OF assms(1-3)] by simp
  have "\<forall>c \<in> set quiet. \<not> passes E ?st1 (fst c) (fst (snd c))"
    using assms(4) by simp
  from run_callbacks_filtered [OF att1 this]
  have mid: "\<exists>evq. run_callbacks E ?st1 quiet = Inr (?st1, evq)"
    by simp
  have "passes E ?st1 ptr2 level2"
    using assms(5) by simp
  from callback_forwards [OF att1 this assms(6), of vl2]
  have second: "mp_msg_av_log_callback E ?st1 ptr2 level2 fmt2 vl2 =
      Inr (st\<lparr>log_print_prefix := (last fmt2 = CHR 10)\<rparr>,
           snd (get_av_log (msgl E) st ptr2)
           @ (if last fmt1 = CHR 10
              then [prefix_event (fst (get_av_log (msgl E) st ptr2))
                      (av_log_level_to_mp_level (msgl E) level2) ptr2]
              else [])
           @ [Mp_msg_log_va (fst (get_av_log (msgl E) st ptr2))
                (av_log_level_to_mp_level (msgl E) level2) fmt2 vl2])"
    by simp
  from first mid second show ?thesis by blast
qed

theorem prefix_follows_previous_newline_witness:
  "log_mpv_instance st_example \<noteq> None \<and>
   passes E_example st_example (Some audio_example) AV_LOG_INFO \<and>
   \<not> passes E_example st_example None AV_LOG_DEBUG \<and>
   passes E_example st_example None AV_LOG_ERROR \<and>
   mp_msg_av_log_callback E_example (st_example\<lparr>log_print_prefix := False\<rparr>)
       None AV_LOG_ERROR (''done'' @ [CHR 10]) [] =
     Inr (st_example\<lparr>log_print_prefix := True\<rparr>,
          [Mp_msg_log_va (Some [''mpv'', ''ffmpeg'']) 1 (''done'' @ [CHR 10]) []]) \<and>
   mp_msg_av_log_callback E_example (st_example\<lparr>log_print_prefix := True\<rparr>)
       None AV_LOG_ERROR ''more'' [] =
     Inr (st_example\<lparr>log_print_prefix := False\<rparr>,
          [Mp_msg_log (Some [''mpv'', ''ffmpeg'']) 1 ''%s: '' [''?''],
           Mp_msg_log_va (Some [''mpv'', ''ffmpeg'']) 1 ''more'' []])"
proof -
  have att: "log_mpv_instance st_example \<noteq> None"
    by (simp add: st_example_def attach_fields)
  have p1: "passes E_example st_example (Some audio_example) AV_LOG_INFO"
    by (simp add: passes_def E_example_def L_example_def av_log_level_to_mp_level_bands)
  have q: "\<not> passes E_example st_example None AV_LOG_DEBUG"
    by (simp add: passes_def E_example_def L_example_def av_log_level_to_mp_level_bands)
  then have quiet:
    "\<forall>c \<in> set [(None, AV_LOG_DEBUG, ''dbg'', [])].
       \<not> passes E_example st_example (fst c) (fst (snd c))"
    by simp
  have p2: "passes E_example st_example None AV_LOG_ERROR"
    by (simp add: passes_def E_example_def L_example_def av_log_level_to_mp_level_bands)
  have n1: "''frame '' \<noteq> []" and n2: "''done'' @ [CHR 10] \<noteq> []" and n3: "''more'' \<noteq> []"
    by simp_all
  have root: "fst (get_av_log (msgl E_example) st_example None) = Some [''mpv'', ''ffmpeg'']"
    and quiet_sink: "snd (get_av_log (msgl E_example) st_example None) = []"
    by (simp_all add: get_av_log_def st_example_def attach_fields g_example_def
        E_example_def LIB_PREFIX_def)
  have err: "av_log_level_to_mp_level (msgl E_example) AV_LOG_ERROR = 1"
    by (simp add: E_example_def L_example_def av_log_level_to_mp_level_bands)
  from prefix_follows_previous_newline [OF att p1 n1 quiet p2 n2, of "[]" "[]"]
  have open_line:
    "mp_msg_av_log_callback E_example (st_example\<lparr>log_print_prefix := False\<rparr>)
       None AV_LOG_ERROR (''done'' @ [CHR 10]) [] =
     Inr (st_example\<lparr>log_print_prefix := True\<rparr>,
          [Mp_msg_log_va (Some [''mpv'', ''ffmpeg'']) 1 (''done'' @ [CHR 10]) []])"
    by (simp add: root quiet_sink err)
  from prefix_follows_previous_newline [OF att p2 n2 quiet p2 n3, of "[]" "[]"]
  have closed_line:
    "mp_msg_av_log_callback E_example (st_example\<lparr>log_print_prefix := True\<rparr>)
       None AV_LOG_ERROR ''more'' [] =
     Inr (st_example\<lparr>log_print_prefix := False\<rparr>,
          [Mp_msg_log (Some [''mpv'', ''ffmpeg'']) 1 ''%s: '' [''?''],
           Mp_msg_log_va (Some [''mpv'', ''ffmpeg'']) 1 ''more'' []])"
    by (simp add: root quiet_sink err prefix_event_def)
  from att p1 q p2 open_line closed_line show ?thesis
    by blast
qed

text \<open>
  C9. The read of \<open>fmt[strlen(fmt) - 1]\<close> needs a format string that is not empty.
  For a call with an instance attached and a message that passes the test of its sink:
  if \<open>fmt\<close> is not empty the index is inside the string, the read yields its last
  character and the callback returns; if \<open>fmt\<close> is empty the index wraps to
  \<open>SIZE_MAX\<close> and the read is out of bounds.
\<close>

theorem format_read_in_bounds:
  assumes "log_mpv_instance st \<noteq> None" and "passes E st ptr level"
  shows "(fmt \<noteq> [] \<longrightarrow>
            size_t_pred (length fmt) < length fmt \<and>
            char_at fmt (size_t_pred (length fmt)) = Inr (last fmt) \<and>
            (\<exists>r. mp_msg_av_log_callback E st ptr level fmt vl = Inr r)) \<and>
         (fmt = [] \<longrightarrow>
            size_t_pred (length fmt) = SIZE_MAX \<and>
            char_at fmt (size_t_pred (length fmt)) = Inl Out_of_bounds_read \<and>
            mp_msg_av_log_callback E st ptr level fmt vl = Inl Out_of_bounds_read)"
proof (cases "fmt = []")
  case True
  with callback_empty_fmt [OF assms, of vl] show ?thesis
    by (simp add: char_at_empty) (simp add: size_t_pred_def)
next
  case False
  with callback_forwards [OF assms False, of vl] show ?thesis
    by (simp add: char_at_last) (simp add: size_t_pred_def)
qed

theorem format_read_in_bounds_witness:
  "log_mpv_instance st_example \<noteq> None \<and>
   passes E_example st_example None AV_LOG_WARNING \<and>
   char_at ''hello'' (size_t_pred (length ''hello'')) = Inr CHR ''o'' \<and>
   (\<exists>r. mp_msg_av_log_callback E_example st_example None AV_LOG_WARNING ''hello'' [] = Inr r) \<and>
   mp_msg_av_log_callback E_example st_example None AV_LOG_WARNING [] [] =
     Inl Out_of_bounds_read"
proof -
  have att: "log_mpv_instance st_example \<noteq> None"
    by (simp add: st_example_def attach_fields)
  have p: "passes E_example st_example None AV_LOG_WARNING"
    by (simp add: passes_def E_example_def L_example_def av_log_level_to_mp_level_bands)
  from format_read_in_bounds [OF att p, of "''hello''" "[]"]
    format_read_in_bounds [OF att p, of "[]" "[]"] att p
  show ?thesis by simp
qed

text \<open>
  C10, as the spec states it, ends: while no instance is attached, no sink selection or
  severity translation is performed. The callback translates the level in the
  initialiser of \<open>mp_level\<close>, before it looks at the instance pointer: with no
  instance attached the translation is among the calls it makes.
\<close>

theorem callback_detached_translates_counterexample:
  "log_mpv_instance bridge_init = None \<and>
   Call_av_log_level_to_mp_level AV_LOG_ERROR
     \<in> set (mp_msg_av_log_callback_calls bridge_init (Some audio_example) AV_LOG_ERROR)"
  by (simp add: bridge_init_def mp_msg_av_log_callback_calls_def)

text \<open>
  C10, amended. When no instance is attached, the callback writes the message to stderr
  with the format string and the arguments as they came, and returns the bridge state
  as it was: instance pointer, sinks and prefix flag. No sink is selected and nothing
  goes to a sink. The severity translation is performed, as the only call to the file's
  own functions, and its result is not used: the outcome depends neither on the level
  nor on the source object.
\<close>

theorem callback_detached_stderr:
  assumes "log_mpv_instance st = None"
  shows "mp_msg_av_log_callback E st ptr level fmt vl = Inr (st, [Vfprintf_stderr fmt vl]) \<and>
    mp_msg_av_log_callback_calls st ptr level = [Call_av_log_level_to_mp_level level] \<and>
    Call_get_av_log ptr \<notin> set (mp_msg_av_log_callback_calls st ptr level) \<and>
    mp_msg_av_log_callback E st ptr level fmt vl = mp_msg_av_log_callback E' st ptr' level' fmt vl"
  using assms callback_detached [OF assms, of E ptr level fmt vl]
    callback_detached [OF assms, of E' ptr' level' fmt vl]
  by (simp add: mp_msg_av_log_callback_calls_def)

theorem callback_detached_stderr_witness:
  "log_mpv_instance bridge_init = None \<and>
   mp_msg_av_log_callback E_example bridge_init (Some audio_example) AV_LOG_ERROR
       ''no decoder'' [Va_int 3] =
     Inr (bridge_init, [Vfprintf_stderr ''no decoder'' [Va_int 3]]) \<and>
   mp_msg_av_log_callback_calls bridge_init (Some audio_example) AV_LOG_ERROR =
     [Call_av_log_level_to_mp_level AV_LOG_ERROR]"
proof -
  have det: "log_mpv_instance bridge_init = None"
    by (simp add: bridge_init_def)
  from callback_detached_stderr [OF det, of E_example "Some audio_example" AV_LOG_ERROR
      "''no decoder''" "[Va_int 3]"] det
  show ?thesis by blast
qed

section \<open>Properties of the mixer model\<close>

subsection \<open>Auxiliary facts\<close>

lemma derive_unique:
  assumes "(l + r) / 2 = c" and "r - l = b * (r + l)"
  shows "derive c b = (l, r)"
proof -
  from assms(1) have sum: "l + r = 2 * c"
    by simp
  with assms(2) have diff: "r - l = 2 * (c * b)"
    by (simp add: add.commute)
  from sum diff have "l = c - c * b" and "r = c + c * b"
    by simp_all
  then show ?thesis
    by (simp add: derive_def algebra_simps)
qed

lemma clamp_id: "lo \<le> x \<Longrightarrow> x \<le> hi \<Longrightarrow> clamp lo hi x = x"
  by (simp add: clamp_def)

lemma clamp_range:
  assumes "lo \<le> hi"
  shows "lo \<le> clamp lo hi x" and "clamp lo hi x \<le> hi"
  using assms by (simp_all add: clamp_def)

lemma setVolume_state:
  "fst (setVolume left right m) =
     m\<lparr>leftVolume := clamp 0 100 left, rightVolume := clamp 0 100 right,
       balance := (if clamp 0 100 right + clamp 0 100 left > 0
                   then (clamp 0 100 right - clamp 0 100 left)
                        / (clamp 0 100 right + clamp 0 100 left)
                   else balance m)\<rparr>"
  by (simp add: setVolume_def Let_def)

lemma setVolume_stored:
  assumes "VolumeState_ok m"
  shows "setVolume (leftVolume m) (rightVolume m) m = (m, apply_volume m)"
proof -
  from assms have range: "0 \<le> leftVolume m" "leftVolume m \<le> 100"
    "0 \<le> rightVolume m" "rightVolume m \<le> 100"
    and l: "leftVolume m = getBothVolume m * (1 - balance m)"
    and r: "rightVolume m = getBothVolume m * (1 + balance m)"
    by (simp_all add: VolumeState_ok_def derive_def)
  have "(rightVolume m - leftVolume m) / (rightVolume m + leftVolume m) = balance m"
    if pos: "rightVolume m + leftVolume m > 0"
  proof -
    from l r have "rightVolume m - leftVolume m = 2 * getBothVolume m * balance m"
      by (simp add: algebra_simps)
    moreover have "rightVolume m + leftVolume m = 2 * getBothVolume m"
      by (simp add: getBothVolume_def)
    ultimately show ?thesis
      using pos by simp
  qed
  with range show ?thesis
    by (simp add: setVolume_def Let_def clamp_id)
qed

lemma setVolume_ok:
  assumes "- 1 \<le> balance m" and "balance m \<le> 1"
  shows "VolumeState_ok (fst (setVolume left right m))"
proof -
  define l where "l = clamp 0 100 left"
  define r where "r = clamp 0 100 right"
  have range: "0 \<le> l" "l \<le> 100" "0 \<le> r" "r \<le> 100"
    using clamp_range [of 0 100 left] clamp_range [of 0 100 right]
    by (simp_all add: l_def r_def)
  show ?thesis
  proof (cases "r + l > 0")
    case True
    have "\<bar>r - l\<bar> \<le> r + l"
      using range by simp
    with True have bal: "- 1 \<le> (r - l) / (r + l)" "(r - l) / (r + l) \<le> 1"
      by (simp_all add: field_simps)
    have "derive ((l + r) / 2) ((r - l) / (r + l)) = (l, r)"
      using True by (intro derive_unique) simp_all
    with True range bal show ?thesis
      by (simp add: setVolume_state VolumeState_ok_def getBothVolume_def
          l_def [symmetric] r_def [symmetric])
  next
    case False
    with range have "l = 0" "r = 0"
      by simp_all
    with assms show ?thesis
      by (simp add: setVolume_state VolumeState_ok_def getBothVolume_def derive_def
          l_def [symmetric] r_def [symmetric])
  qed
qed

lemma fresh_mixer_ok: "VolumeState_ok fresh_mixer"
  by (simp add: VolumeState_ok_def fresh_mixer_def getBothVolume_def derive_def)

lemma operations_keep_VolumeState_ok:
  assumes "VolumeState_ok m"
  shows "VolumeState_ok (fst (setVolume left right m))"
    and "VolumeState_ok (fst (incVolume step m))"
    and "VolumeState_ok (fst (decVolume step m))"
    and "VolumeState_ok (fst (setMute b m))"
proof -
  from assms have bal: "- 1 \<le> balance m" "balance m \<le> 1"
    by (simp_all add: VolumeState_ok_def)
  then show "VolumeState_ok (fst (setVolume left right m))"
    by (rule setVolume_ok)
  from bal show "VolumeState_ok (fst (incVolume step m))"
    by (simp add: incVolume_def case_prod_beta setVolume_ok)
  from bal show "VolumeState_ok (fst (decVolume step m))"
    by (simp add: decVolume_def case_prod_beta setVolume_ok)
  from assms show "VolumeState_ok (fst (setMute b m))"
    by (simp add: setMute_def Let_def VolumeState_ok_def getBothVolume_def)
qed

text \<open>
  \<open>setBalance\<close> can leave a clamped channel beside the balance it stores, so it does
  not keep \<open>VolumeState_ok\<close>. What it and the other operations keep is
  \<open>VolumeState_kept\<close>, which the fresh mixer has; at combined volume 100 and at
  combined volume 0 that is \<open>VolumeState_ok\<close> again.
\<close>

lemma setBalance_state:
  "fst (setBalance bal m) =
     m\<lparr>leftVolume := clamp 0 100 (getBothVolume m * (1 - clamp (- 1) 1 bal)),
       rightVolume := clamp 0 100 (getBothVolume m * (1 + clamp (- 1) 1 bal)),
       balance := clamp (- 1) 1 bal\<rparr>"
  by (simp add: setBalance_def setVolume_state derive_def Let_def)

lemma VolumeState_ok_kept: "VolumeState_ok m \<Longrightarrow> VolumeState_kept m"
  by (auto simp: VolumeState_ok_def VolumeState_kept_def derive_def getBothVolume_def)

lemma setBalance_kept:
  assumes "VolumeState_kept m"
  shows "VolumeState_kept (fst (setBalance bal m))"
proof -
  define c where "c = getBothVolume m"
  define b where "b = clamp (- 1) 1 bal"
  from assms have c: "0 \<le> c" "c \<le> 100"
    by (simp_all add: VolumeState_kept_def c_def getBothVolume_def)
  have b: "- 1 \<le> b" "b \<le> 1"
    using clamp_range [of "- 1" 1 bal] by (simp_all add: b_def)
  have range: "0 \<le> clamp 0 100 (c * (1 - b))" "clamp 0 100 (c * (1 - b)) \<le> 100"
    "0 \<le> clamp 0 100 (c * (1 + b))" "clamp 0 100 (c * (1 + b)) \<le> 100"
    using clamp_range [of 0 100 "c * (1 - b)"] clamp_range [of 0 100 "c * (1 + b)"]
    by simp_all
  have centred: "b = 0"
    if full: "clamp 0 100 (c * (1 - b)) = 100" "clamp 0 100 (c * (1 + b)) = 100"
  proof -
    from full have "100 \<le> c * (1 - b)" and "100 \<le> c * (1 + b)"
      by (simp_all add: clamp_def min_def max_def split: if_splits)
    then have low: "100 \<le> c - c * b" and high: "100 \<le> c + c * b"
      by (simp_all add: algebra_simps)
    from low high c(2) have "c = 100"
      by linarith
    with low high show ?thesis
      by simp
  qed
  from range b centred show ?thesis
    by (simp add: VolumeState_kept_def setBalance_state c_def [symmetric] b_def [symmetric])
qed

lemma operations_keep_VolumeState_kept:
  assumes "VolumeState_kept m"
  shows "VolumeState_kept (fst (setVolume left right m))"
    and "VolumeState_kept (fst (incVolume step m))"
    and "VolumeState_kept (fst (decVolume step m))"
    and "VolumeState_kept (fst (setBalance bal m))"
    and "VolumeState_kept (fst (setMute b m))"
proof -
  from assms have bal: "- 1 \<le> balance m" "balance m \<le> 1"
    by (simp_all add: VolumeState_kept_def)
  from bal show "VolumeState_kept (fst (setVolume left right m))"
    by (intro VolumeState_ok_kept setVolume_ok)
  from bal show "VolumeState_kept (fst (incVolume step m))"
    by (simp add: incVolume_def case_prod_beta VolumeState_ok_kept setVolume_ok)
  from bal show "VolumeState_kept (fst (decVolume step m))"
    by (simp add: decVolume_def case_prod_beta VolumeState_ok_kept setVolume_ok)
  from assms show "VolumeState_kept (fst (setBalance bal m))"
    by (rule setBalance_kept)
  from assms show "VolumeState_kept (fst (setMute b m))"
    by (simp add: setMute_def Let_def VolumeState_kept_def)
qed

lemma fresh_mixer_kept: "VolumeState_kept fresh_mixer"
  by (simp add: VolumeState_kept_def fresh_mixer_def)

lemma kept_at_boundary_ok:
  assumes "VolumeState_kept m" and "getBothVolume m = 100 \<or> getBothVolume m = 0"
  shows "VolumeState_ok m"
proof -
  from assms(1) have range: "0 \<le> leftVolume m" "leftVolume m \<le> 100"
    "0 \<le> rightVolume m" "rightVolume m \<le> 100" "- 1 \<le> balance m" "balance m \<le> 1"
    and centred: "leftVolume m = 100 \<and> rightVolume m = 100 \<longrightarrow> balance m = 0"
    by (simp_all add: VolumeState_kept_def)
  from assms(2) show ?thesis
  proof
    assume "getBothVolume m = 100"
    with range have full: "leftVolume m = 100" "rightVolume m = 100"
      by (simp_all add: getBothVolume_def)
    with centred have "balance m = 0"
      by simp
    with full show ?thesis
      by (simp add: VolumeState_ok_def getBothVolume_def derive_def)
  next
    assume "getBothVolume m = 0"
    with range have "leftVolume m = 0" "rightVolume m = 0"
      by (simp_all add: getBothVolume_def)
    with range show ?thesis
      by (simp add: VolumeState_ok_def getBothVolume_def derive_def)
  qed
qed

subsection \<open>The claims\<close>

text \<open>
  C5. At the clamp boundary a volume step is a no-op. For a mixer whose VolumeState
  meets the data model's conditions and a step that is not negative: \<open>incVolume\<close>
  at combined volume 100 and \<open>decVolume\<close> at combined volume 0 return the mixer as
  it was (left, right, balance, mute and the rest), and what they drive the active
  mechanism to is what the unchanged state stands for. The operations have no error
  result.
\<close>

theorem volume_step_at_boundary_noop:
  assumes "VolumeState_ok m" and "0 \<le> step"
  shows "(getBothVolume m = 100 \<longrightarrow> incVolume step m = (m, apply_volume m)) \<and>
         (getBothVolume m = 0 \<longrightarrow> decVolume step m = (m, apply_volume m))"
proof -
  from assms(1)
  have stored: "derive (getBothVolume m) (balance m) = (leftVolume m, rightVolume m)"
    by (simp add: VolumeState_ok_def)
  have "incVolume step m = (m, apply_volume m)" if top: "getBothVolume m = 100"
  proof -
    from assms(2) top have "clamp 0 100 (getBothVolume m + step) = getBothVolume m"
      by (simp add: clamp_def)
    with stored show ?thesis
      by (simp add: incVolume_def setVolume_stored [OF assms(1)])
  qed
  moreover have "decVolume step m = (m, apply_volume m)" if bottom: "getBothVolume m = 0"
  proof -
    from assms(2) bottom have "clamp 0 100 (getBothVolume m - step) = getBothVolume m"
      by (simp add: clamp_def)
    with stored show ?thesis
      by (simp add: decVolume_def setVolume_stored [OF assms(1)])
  qed
  ultimately show ?thesis by blast
qed

theorem volume_step_at_boundary_noop_witness:
  "VolumeState_ok fresh_mixer \<and> (0::real) \<le> 3 \<and> getBothVolume fresh_mixer = 100 \<and>
   incVolume 3 fresh_mixer = (fresh_mixer, []) \<and>
   VolumeState_ok silent_mixer \<and> getBothVolume silent_mixer = 0 \<and>
   decVolume 3 silent_mixer = (silent_mixer, [DeviceSetVolume 0 0])"
proof -
  have ok: "VolumeState_ok fresh_mixer" "VolumeState_ok silent_mixer"
    by (simp_all add: VolumeState_ok_def fresh_mixer_def silent_mixer_def getBothVolume_def
        derive_def)
  have step: "(0::real) \<le> 3"
    by simp
  have top: "getBothVolume fresh_mixer = 100" and bottom: "getBothVolume silent_mixer = 0"
    by (simp_all add: getBothVolume_def fresh_mixer_def silent_mixer_def)
  have pushes: "apply_volume fresh_mixer = []"
    "apply_volume silent_mixer = [DeviceSetVolume 0 0]"
    by (simp_all add: apply_volume_def fresh_mixer_def silent_mixer_def)
  from volume_step_at_boundary_noop [OF ok(1) step] volume_step_at_boundary_noop [OF ok(2) step]
    ok top bottom
  show ?thesis
    by (simp add: pushes)
qed

text \<open>
  C6. For every real \<open>b\<close> and every mixer, with or without a device binding,
  \<open>setBalance(b)\<close> followed by \<open>getBalance()\<close> returns the clamp of \<open>b\<close> to
  [-1, 1], a number of that interval; the channels that \<open>setBalance\<close> stores are the
  recomputed ones, clamped to [0, 100].
\<close>

theorem setBalance_then_getBalance:
  "getBalance (fst (setBalance b m)) = clamp (- 1) 1 b \<and>
   getBalance (fst (setBalance b (m\<lparr>binding := d\<rparr>))) = clamp (- 1) 1 b \<and>
   - 1 \<le> getBalance (fst (setBalance b m)) \<and> getBalance (fst (setBalance b m)) \<le> 1 \<and>
   getVolume (fst (setBalance b m)) =
     (clamp 0 100 (getBothVolume m * (1 - clamp (- 1) 1 b)),
      clamp 0 100 (getBothVolume m * (1 + clamp (- 1) 1 b)))"
proof -
  have stored: "getBalance (fst (setBalance b m')) = clamp (- 1) 1 b" for m'
    by (simp add: getBalance_def setBalance_state)
  have "getVolume (fst (setBalance b m)) =
     (clamp 0 100 (getBothVolume m * (1 - clamp (- 1) 1 b)),
      clamp 0 100 (getBothVolume m * (1 + clamp (- 1) 1 b)))"
    by (simp add: getVolume_def setBalance_state)
  with stored [of m] stored [of "m\<lparr>binding := d\<rparr>"] clamp_range [of "- 1" 1 b]
  show ?thesis
    by simp
qed

text \<open>
  C7. \<open>setMute\<close> changes the mute flag and nothing else of the mixer: left volume,
  right volume and balance stay, so \<open>getVolume\<close> after \<open>setMute(true)\<close> returns the
  values stored before. Entering mute drives the active mechanism to zero, and
  \<open>setMute(false)\<close> after it drives the mechanism to the stored volumes again.
\<close>

theorem setMute_changes_only_mute:
  "fst (setMute b m) = m\<lparr>mute := b\<rparr> \<and>
   leftVolume (fst (setMute b m)) = leftVolume m \<and>
   rightVolume (fst (setMute b m)) = rightVolume m \<and>
   balance (fst (setMute b m)) = balance m \<and>
   getMute (fst (setMute b m)) = b \<and>
   getVolume (fst (setMute True m)) = getVolume m \<and>
   snd (setMute True m) =
     (case binding m of
        None \<Rightarrow> []
      | Some HARDWARE \<Rightarrow> [DeviceSetVolume 0 0]
      | Some SOFTWARE \<Rightarrow> [FilterSetGain 0 0]) \<and>
   snd (setMute False (fst (setMute True m))) =
     (case binding m of
        None \<Rightarrow> []
      | Some HARDWARE \<Rightarrow> [DeviceSetVolume (leftVolume m) (rightVolume m)]
      | Some SOFTWARE \<Rightarrow> [FilterSetGain (leftVolume m / 100) (rightVolume m / 100)])"
  by (simp add: setMute_def getMute_def getVolume_def apply_volume_def Let_def
      split: option.splits activeMode.splits)

end
